theory Spec2Isabelle
  imports Complex_Main
begin

section \<open>Python values and exceptions\<close>

text \<open>
  The box editor of \<^verbatim>\<open>draw_boxes.py\<close> keeps its boxes in a dynamically typed
  attribute: \<^verbatim>\<open>self.boxes\<close> starts as the empty list, grows by lists of four
  integers, and is replaced by whatever \<^verbatim>\<open>json.load\<close> found under the key
  \<^verbatim>\<open>"boxes"\<close>. The values that can stand there are therefore the values of
  Python's \<^verbatim>\<open>json\<close> module: \<^verbatim>\<open>None\<close>, booleans, integers, floats, strings,
  lists, and dictionaries with string keys (kept in insertion order, keys distinct).

  Two idealisations are made throughout:
  \<^item> a Python \<^verbatim>\<open>float\<close> is an exact real number (no binary rounding, no
    infinities, no NaN); the concrete inputs evaluated below use scales that are
    exact binary fractions (1, 1/2, 1/4);
  \<^item> a Python \<^verbatim>\<open>str\<close> is a list of \<^typ>\<open>char\<close>, one per character.
  Library calls (\<^verbatim>\<open>cv2\<close>, \<^verbatim>\<open>json\<close>, \<^verbatim>\<open>open\<close>) are represented by their
  outcome, as said where each is used.
\<close>

datatype pyval =
    PNone
  | PBool bool
  | PInt int
  | PFloat real
  | PStr string
  | PList "pyval list"
  | PDict "(string \<times> pyval) list"

datatype exn =
    FileNotFoundError
  | PermissionError
  | OSError
  | JSONDecodeError
  | ZeroDivisionError
  | CvError
  | TypeError
  | ValueError
  | AttributeError
  | KeyError

text \<open>\<^verbatim>\<open>round(q)\<close> on a float: the nearest integer, a tie going to the even one.\<close>

definition py_round :: "real \<Rightarrow> int" where
  "py_round q =
     (let f = \<lfloor>q\<rfloor>; d = q - of_int f
      in if d < 1 / 2 then f
         else if 1 / 2 < d then f + 1
         else if even f then f else f + 1)"

text \<open>\<^verbatim>\<open>int(q)\<close> on a float truncates towards zero.\<close>

definition py_int :: "real \<Rightarrow> int" where
  "py_int q = (if 0 \<le> q then \<lfloor>q\<rfloor> else \<lceil>q\<rceil>)"

text \<open>
  \<^verbatim>\<open>v * s\<close> for a float \<^verbatim>\<open>s\<close>: defined on numbers (a \<^verbatim>\<open>bool\<close> is an
  \<^verbatim>\<open>int\<close> in Python), a \<^verbatim>\<open>TypeError\<close> on everything else.
\<close>

fun py_mul_float :: "pyval \<Rightarrow> real \<Rightarrow> exn + real" where
  "py_mul_float (PInt i) s = Inr (of_int i * s)"
| "py_mul_float (PFloat r) s = Inr (r * s)"
| "py_mul_float (PBool b) s = Inr ((if b then 1 else 0) * s)"
| "py_mul_float PNone s = Inl TypeError"
| "py_mul_float (PStr t) s = Inl TypeError"
| "py_mul_float (PList xs) s = Inl TypeError"
| "py_mul_float (PDict kvs) s = Inl TypeError"

text \<open>Iterating a value: a list gives its elements, a string its characters, a
  dictionary its keys; anything else is not iterable.\<close>

fun py_iter :: "pyval \<Rightarrow> exn + pyval list" where
  "py_iter (PList xs) = Inr xs"
| "py_iter (PStr t) = Inr (map (\<lambda>c. PStr [c]) t)"
| "py_iter (PDict kvs) = Inr (map (\<lambda>kv. PStr (fst kv)) kvs)"
| "py_iter PNone = Inl TypeError"
| "py_iter (PBool b) = Inl TypeError"
| "py_iter (PInt i) = Inl TypeError"
| "py_iter (PFloat r) = Inl TypeError"

text \<open>The unpacking \<^verbatim>\<open>x, y, w, h = box\<close>: a \<^verbatim>\<open>TypeError\<close> when \<^verbatim>\<open>box\<close> is
  not iterable, a \<^verbatim>\<open>ValueError\<close> when it does not have exactly four items.\<close>

definition unpack4 :: "pyval \<Rightarrow> exn + (pyval \<times> pyval \<times> pyval \<times> pyval)" where
  "unpack4 box =
     (case py_iter box of
        Inl ex \<Rightarrow> Inl ex
      | Inr [a, b, c, d] \<Rightarrow> Inr (a, b, c, d)
      | Inr _ \<Rightarrow> Inl ValueError)"

text \<open>\<^verbatim>\<open>len(v)\<close>.\<close>

fun py_len :: "pyval \<Rightarrow> exn + nat" where
  "py_len (PList xs) = Inr (length xs)"
| "py_len (PStr t) = Inr (length t)"
| "py_len (PDict kvs) = Inr (length kvs)"
| "py_len PNone = Inl TypeError"
| "py_len (PBool b) = Inl TypeError"
| "py_len (PInt i) = Inl TypeError"
| "py_len (PFloat r) = Inl TypeError"

text \<open>\<^verbatim>\<open>"boxes" in data\<close>: key membership for a dictionary, element membership for a
  list, substring test for a string, a \<^verbatim>\<open>TypeError\<close> otherwise.\<close>

fun starts_with :: "string \<Rightarrow> string \<Rightarrow> bool" where
  "starts_with [] t = True"
| "starts_with (c # cs) [] = False"
| "starts_with (c # cs) (d # ds) = (c = d \<and> starts_with cs ds)"

fun has_substring :: "string \<Rightarrow> string \<Rightarrow> bool" where
  "has_substring p [] = (p = [])"
| "has_substring p (d # ds) = (starts_with p (d # ds) \<or> has_substring p ds)"

fun py_contains_str :: "string \<Rightarrow> pyval \<Rightarrow> exn + bool" where
  "py_contains_str k (PDict kvs) = Inr (k \<in> set (map fst kvs))"
| "py_contains_str k (PList xs) = Inr (PStr k \<in> set xs)"
| "py_contains_str k (PStr t) = Inr (has_substring k t)"
| "py_contains_str k PNone = Inl TypeError"
| "py_contains_str k (PBool b) = Inl TypeError"
| "py_contains_str k (PInt i) = Inl TypeError"
| "py_contains_str k (PFloat r) = Inl TypeError"

text \<open>\<^verbatim>\<open>data["boxes"]\<close>, reached only after the membership test succeeded: the value
  of the key for a dictionary; a list or a string cannot be indexed by a string.\<close>

fun py_getitem_str :: "pyval \<Rightarrow> string \<Rightarrow> exn + pyval" where
  "py_getitem_str (PDict kvs) k =
     (case map_of kvs k of Some v \<Rightarrow> Inr v | None \<Rightarrow> Inl KeyError)"
| "py_getitem_str (PList xs) k = Inl TypeError"
| "py_getitem_str (PStr t) k = Inl TypeError"
| "py_getitem_str PNone k = Inl TypeError"
| "py_getitem_str (PBool b) k = Inl TypeError"
| "py_getitem_str (PInt i) k = Inl TypeError"
| "py_getitem_str (PFloat r) k = Inl TypeError"


section \<open>Files\<close>

text \<open>
  \<^verbatim>\<open>json.dump\<close> and \<^verbatim>\<open>json.load\<close> are library code. A file is represented by
  what \<^verbatim>\<open>json.load\<close> makes of it: the document it encodes, or no document at
  all; a file written by \<^verbatim>\<open>json.dump\<close> encodes the value that was dumped.
  \<^verbatim>\<open>open(path, "r")\<close> fails on a missing file. \<^verbatim>\<open>open(path, "w")\<close> fails on
  the paths of \<open>unwritable\<close>; on the paths of \<open>write_fails\<close> it succeeds, emptying
  the file, and the write after it fails, which leaves no document there.
\<close>

datatype fcontent = JsonDoc pyval | NotJson

record fs =
  files :: "string \<Rightarrow> fcontent option"
  unwritable :: "string set"
  write_fails :: "string set"


section \<open>Display scale\<close>

definition MAX_DISPLAY_DIM :: int where
  "MAX_DISPLAY_DIM = 1000"

text \<open>
  \<^verbatim>\<open>scale_for_display(img, max_dim)\<close>, on the shape \<open>(h, w)\<close> of the image. The
  result is the shape of the display image and the scale. \<^verbatim>\<open>cv2.resize\<close>
  returns an image of the size it is asked for and raises \<^verbatim>\<open>cv2.error\<close> when
  a dimension of that size is not positive.
\<close>

definition scale_for_display :: "int \<times> int \<Rightarrow> int \<Rightarrow> exn + ((int \<times> int) \<times> real)" where
  "scale_for_display shape max_dim =
     (let h = fst shape; w = snd shape
      in if max h w > max_dim
         then (if max h w = 0 then Inl ZeroDivisionError
               else (let scale = of_int max_dim / of_int (max h w);
                         dw = py_int (of_int w * scale);
                         dh = py_int (of_int h * scale)
                     in if dw \<le> 0 \<or> dh \<le> 0 then Inl CvError
                        else Inr ((dh, dw), scale)))
         else Inr ((h, w), 1))"


section \<open>The editor\<close>

record editor =
  image_path :: string
  h_orig :: int
  w_orig :: int
  scale :: real
  h_disp :: int
  w_disp :: int
  drawing :: bool
  start_pt_disp :: "(int \<times> int) option"
  cur_pt_disp :: "(int \<times> int) option"
  boxes :: pyval
  output_path :: string
  mouse_pos :: "int \<times> int"

text \<open>\<^verbatim>\<open>disp_to_orig\<close>: display points are the integer pixel positions of mouse
  events, on which \<^verbatim>\<open>int(round(.))\<close> is the identity.\<close>

definition disp_to_orig :: "editor \<Rightarrow> int \<times> int \<Rightarrow> int \<times> int" where
  "disp_to_orig e pt_disp =
     (let x_disp = fst pt_disp; y_disp = snd pt_disp
      in if scale e = 0 then (x_disp, y_disp)
         else (let x = py_round (of_int x_disp / scale e);
                   y = py_round (of_int y_disp / scale e);
                   x = max 0 (min (w_orig e - 1) x);
                   y = max 0 (min (h_orig e - 1) y)
               in (x, y)))"

definition orig_to_disp :: "editor \<Rightarrow> pyval \<Rightarrow> exn + (int \<times> int \<times> int \<times> int)" where
  "orig_to_disp e box =
     (case unpack4 box of
        Inl ex \<Rightarrow> Inl ex
      | Inr (x, y, w, h) \<Rightarrow>
          (case py_mul_float x (scale e) of
             Inl ex \<Rightarrow> Inl ex
           | Inr xs \<Rightarrow>
               (case py_mul_float y (scale e) of
                  Inl ex \<Rightarrow> Inl ex
                | Inr ys \<Rightarrow>
                    (case py_mul_float w (scale e) of
                       Inl ex \<Rightarrow> Inl ex
                     | Inr ws \<Rightarrow>
                         (case py_mul_float h (scale e) of
                            Inl ex \<Rightarrow> Inl ex
                          | Inr hs \<Rightarrow>
                              Inr (py_round xs, py_round ys, py_round ws, py_round hs))))))"

text \<open>
  \<^verbatim>\<open>add_box_from_disp\<close>. The result is the editor afterwards and the exception
  raised, if any: \<^verbatim>\<open>append\<close> exists on lists only.
\<close>

definition add_box_from_disp :: "editor \<Rightarrow> int \<times> int \<Rightarrow> int \<times> int \<Rightarrow> editor \<times> exn option" where
  "add_box_from_disp e start_disp end_disp =
     (let p0 = disp_to_orig e start_disp; x0 = fst p0; y0 = snd p0;
          p1 = disp_to_orig e end_disp; x1 = fst p1; y1 = snd p1;
          x = min x0 x1;
          y = min y0 y1;
          w = \<bar>x1 - x0\<bar>;
          h = \<bar>y1 - y0\<bar>
      in if w = 0 \<or> h = 0 then (e, None)
         else (case boxes e of
                 PList bs \<Rightarrow>
                   (e\<lparr>boxes := PList (bs @ [PList [PInt x, PInt y, PInt w, PInt h]])\<rparr>, None)
               | _ \<Rightarrow> (e, Some AttributeError)))"

text \<open>
  \<^verbatim>\<open>load_boxes\<close>. \<open>load_boxes_try\<close> is the body of the \<^verbatim>\<open>try\<close> block: the
  editor when the block is left and either the exception that left it or the
  message it printed. The assignment to \<^verbatim>\<open>self.boxes\<close> comes before the
  \<^verbatim>\<open>len\<close> of the message, so an exception of \<^verbatim>\<open>len\<close> leaves the new value in
  place. \<open>load_boxes\<close> adds the handler, which prints and returns.
\<close>

datatype load_msg = Loaded nat | NoBoxesKey | CouldNotLoad exn

definition load_boxes_try :: "editor \<Rightarrow> string \<Rightarrow> fs \<Rightarrow> editor \<times> (exn + load_msg)" where
  "load_boxes_try e path fsys =
     (case files fsys path of
        None \<Rightarrow> (e, Inl FileNotFoundError)
      | Some NotJson \<Rightarrow> (e, Inl JSONDecodeError)
      | Some (JsonDoc data) \<Rightarrow>
          (case py_contains_str ''boxes'' data of
             Inl ex \<Rightarrow> (e, Inl ex)
           | Inr False \<Rightarrow> (e, Inr NoBoxesKey)
           | Inr True \<Rightarrow>
               (case py_getitem_str data ''boxes'' of
                  Inl ex \<Rightarrow> (e, Inl ex)
                | Inr v \<Rightarrow>
                    (let e' = e\<lparr>boxes := v\<rparr>
                     in case py_len v of
                          Inl ex \<Rightarrow> (e', Inl ex)
                        | Inr n \<Rightarrow> (e', Inr (Loaded n))))))"

definition load_boxes :: "editor \<Rightarrow> string \<Rightarrow> fs \<Rightarrow> editor \<times> load_msg" where
  "load_boxes e path fsys =
     (case load_boxes_try e path fsys of
        (e', Inl ex) \<Rightarrow> (e', CouldNotLoad ex)
      | (e', Inr m) \<Rightarrow> (e', m))"

text \<open>
  \<^verbatim>\<open>save_boxes\<close>: the editor and the file system afterwards, and the exception
  raised, if any. \<^verbatim>\<open>path or self.output_path\<close> takes the output path for
  \<^verbatim>\<open>None\<close> and for the empty string. After the file is written the message
  takes \<^verbatim>\<open>len(self.boxes)\<close>, which raises when a load has put a value without
  length there; the output path is recorded last.
\<close>

definition save_payload :: "editor \<Rightarrow> pyval" where
  "save_payload e =
     PDict [(''image'', PStr (image_path e)),
            (''shape'', PList [PInt (h_orig e), PInt (w_orig e)]),
            (''boxes'', boxes e)]"

definition save_path :: "editor \<Rightarrow> string option \<Rightarrow> string" where
  "save_path e path =
     (case path of
        None \<Rightarrow> output_path e
      | Some s \<Rightarrow> if s = [] then output_path e else s)"

definition save_boxes :: "editor \<Rightarrow> string option \<Rightarrow> fs \<Rightarrow> (editor \<times> fs) \<times> exn option" where
  "save_boxes e path fsys =
     (let p = save_path e path;
          payload = save_payload e
      in if p \<in> unwritable fsys then ((e, fsys), Some PermissionError)
         else if p \<in> write_fails fsys
         then ((e, fsys\<lparr>files := (files fsys)(p \<mapsto> NotJson)\<rparr>), Some OSError)
         else (let fsys' = fsys\<lparr>files := (files fsys)(p \<mapsto> JsonDoc payload)\<rparr>
               in case py_len (boxes e) of
                    Inl ex \<Rightarrow> ((e, fsys'), Some ex)
                  | Inr n \<Rightarrow> ((e\<lparr>output_path := p\<rparr>, fsys'), None)))"



text \<open>\<^verbatim>\<open>mouse_callback\<close>: the editor afterwards and the exception raised, if any.
  A start point, once set, is a pair and so is true in a condition.\<close>

datatype mouse_event = EVENT_LBUTTONDOWN | EVENT_MOUSEMOVE | EVENT_LBUTTONUP | EVENT_OTHER

definition mouse_callback :: "editor \<Rightarrow> mouse_event \<Rightarrow> int \<Rightarrow> int \<Rightarrow> editor \<times> exn option" where
  "mouse_callback e0 event x y =
     (let e = e0\<lparr>mouse_pos := (x, y)\<rparr>
      in case event of
           EVENT_LBUTTONDOWN \<Rightarrow>
             (e\<lparr>drawing := True, start_pt_disp := Some (x, y), cur_pt_disp := Some (x, y)\<rparr>, None)
         | EVENT_MOUSEMOVE \<Rightarrow>
             (if drawing e then e\<lparr>cur_pt_disp := Some (x, y)\<rparr> else e, None)
         | EVENT_LBUTTONUP \<Rightarrow>
             (case (if drawing e then start_pt_disp e else None) of
                Some s \<Rightarrow>
                  (case add_box_from_disp (e\<lparr>cur_pt_disp := Some (x, y)\<rparr>) s (x, y) of
                     (e2, Some ex) \<Rightarrow> (e2, Some ex)
                   | (e2, None) \<Rightarrow>
                       (e2\<lparr>drawing := False, start_pt_disp := None, cur_pt_disp := None\<rparr>, None))
              | None \<Rightarrow>
                  (e\<lparr>drawing := False, start_pt_disp := None, cur_pt_disp := None\<rparr>, None))
         | EVENT_OTHER \<Rightarrow> (e, None))"

text \<open>
  \<^verbatim>\<open>BoxEditor.__init__\<close>. \<open>img_shape\<close> is the shape of what \<^verbatim>\<open>cv2.imread\<close>
  returned (\<open>None\<close> when it returned \<^verbatim>\<open>None\<close>); \<open>stem\<close> is the value of
  \<^verbatim>\<open>os.path.splitext(os.path.basename(image_path))[0]\<close>, which depends on the
  platform's path module and is taken as given.
\<close>

definition default_output_name :: "string \<Rightarrow> string" where
  "default_output_name stem = stem @ ''_boxes.json''"

definition BoxEditor_init ::
  "string \<Rightarrow> string \<Rightarrow> (int \<times> int) option \<Rightarrow> string option \<Rightarrow> string option \<Rightarrow> fs
     \<Rightarrow> exn + editor" where
  "BoxEditor_init img_path stem img_shape out_path load_path fsys =
     (case img_shape of
        None \<Rightarrow> Inl FileNotFoundError
      | Some shape \<Rightarrow>
          (case scale_for_display shape MAX_DISPLAY_DIM of
             Inl ex \<Rightarrow> Inl ex
           | Inr (dshape, sc) \<Rightarrow>
               (let e = \<lparr> image_path = img_path,
                          h_orig = fst shape, w_orig = snd shape,
                          scale = sc,
                          h_disp = fst dshape, w_disp = snd dshape,
                          drawing = False,
                          start_pt_disp = None, cur_pt_disp = None,
                          boxes = PList [],
                          output_path =
                            (case out_path of
                               None \<Rightarrow> default_output_name stem
                             | Some s \<Rightarrow> if s = [] then default_output_name stem else s),
                          mouse_pos = (0, 0) \<rparr>;
                    e = (case load_path of
                           None \<Rightarrow> e
                         | Some lp \<Rightarrow> if lp = [] then e else fst (load_boxes e lp fsys))
                in Inr (e\<lparr>mouse_pos := (0, 0)\<rparr>))))"


section \<open>Notions used to state the properties\<close>



text \<open>What \<^verbatim>\<open>__init__\<close> establishes and no method changes: the image is not empty
  and the scale is the one \<open>scale_for_display\<close> computed from its shape.\<close>

definition valid_session :: "editor \<Rightarrow> bool" where
  "valid_session e =
     (0 < h_orig e \<and> 0 < w_orig e \<and>
      (case scale_for_display (h_orig e, w_orig e) MAX_DISPLAY_DIM of
         Inl ex \<Rightarrow> False
       | Inr r \<Rightarrow> scale e = snd r))"

text \<open>A box as \<open>add_box_from_disp\<close> builds it, and the test for that shape.\<close>

definition int_box :: "int \<Rightarrow> int \<Rightarrow> int \<Rightarrow> int \<Rightarrow> pyval" where
  "int_box x y w h = PList [PInt x, PInt y, PInt w, PInt h]"

fun is_int_box :: "pyval \<Rightarrow> bool" where
  "is_int_box (PList [PInt x, PInt y, PInt w, PInt h]) = True"
| "is_int_box _ = False"


text \<open>Editors for the examples: an editor as \<^verbatim>\<open>__init__\<close> leaves it for the
  image \<^verbatim>\<open>img.png\<close>, with the given shape, scale and boxes.\<close>

definition session :: "int \<Rightarrow> int \<Rightarrow> real \<Rightarrow> pyval \<Rightarrow> editor" where
  "session h w s bs =
     \<lparr> image_path = ''img.png'', h_orig = h, w_orig = w, scale = s,
       h_disp = py_int (of_int h * s), w_disp = py_int (of_int w * s),
       drawing = False, start_pt_disp = None, cur_pt_disp = None,
       boxes = bs, output_path = ''img_boxes.json'', mouse_pos = (0, 0) \<rparr>"

text \<open>File systems for the examples: an empty one; one where \<^verbatim>\<open>boxes.json\<close>
  holds a well-formed and a malformed entry; one where \<^verbatim>\<open>out.json\<close> cannot be
  opened for writing.\<close>

definition no_files :: fs where
  "no_files = \<lparr> files = (\<lambda>p. None), unwritable = {}, write_fails = {} \<rparr>"

definition mixed_entries :: pyval where
  "mixed_entries = PList [int_box 10 20 30 40, PList [PStr ''a'', PInt 1, PInt 2, PInt 3]]"

definition mixed_file :: fs where
  "mixed_file =
     \<lparr> files = (\<lambda>p. None)(''boxes.json'' \<mapsto>
         JsonDoc (PDict [(''image'', PStr ''img.png''),
                         (''shape'', PList [PInt 1000, PInt 2000]),
                         (''boxes'', mixed_entries)])),
       unwritable = {}, write_fails = {} \<rparr>"

definition read_only :: fs where
  "read_only = \<lparr> files = (\<lambda>p. None), unwritable = {''out.json''}, write_fails = {} \<rparr>"


section \<open>Rounding and clamping\<close>







section \<open>Sessions\<close>

text \<open>\<open>load_boxes\<close> touches no attribute but the boxes.\<close>

lemma load_boxes_only_boxes:
  "fst (load_boxes e p f) = e\<lparr>boxes := boxes (fst (load_boxes e p f))\<rparr>"
  unfolding load_boxes_def load_boxes_try_def Let_def
  by (auto split: option.splits fcontent.splits sum.splits bool.splits)

lemma load_boxes_keeps:
  "h_orig (fst (load_boxes e p f)) = h_orig e"
  "w_orig (fst (load_boxes e p f)) = w_orig e"
  "scale (fst (load_boxes e p f)) = scale e"
proof -
  let ?e' = "fst (load_boxes e p f)"
  have eq: "?e' = e\<lparr>boxes := boxes ?e'\<rparr>" by (rule load_boxes_only_boxes)
  show "h_orig ?e' = h_orig e" by (subst eq) simp
  show "w_orig ?e' = w_orig e" by (subst eq) simp
  show "scale ?e' = scale e" by (subst eq) simp
qed





text \<open>The constructor stores the shape and the scale of \<open>scale_for_display\<close>, so its
  session is valid; it succeeds whenever \<open>scale_for_display\<close> does.\<close>

lemma init_fields:
  assumes "BoxEditor_init p stem (Some (h, w)) out lp fsys = Inr e"
  shows "h_orig e = h \<and> w_orig e = w \<and>
         (\<exists>d. scale_for_display (h, w) MAX_DISPLAY_DIM = Inr (d, scale e))"
proof (cases "scale_for_display (h, w) MAX_DISPLAY_DIM")
  case (Inl ex)
  with assms show ?thesis by (simp add: BoxEditor_init_def)
next
  case (Inr r)
  obtain d s where r: "r = (d, s)" by (cases r)
  show ?thesis
    using assms Inr r
    by (auto simp: BoxEditor_init_def Let_def load_boxes_keeps split: option.splits)
qed


lemma init_valid:
  assumes "0 < h" and "0 < w" and "BoxEditor_init p stem (Some (h, w)) out lp fsys = Inr e"
  shows "valid_session e"
  using assms init_fields [OF assms(3)] by (auto simp: valid_session_def)

lemma valid_session_scale: "valid_session e \<Longrightarrow> 0 < scale e \<and> scale e \<le> 1"
  unfolding valid_session_def
  by (auto simp: scale_for_display_def Let_def MAX_DISPLAY_DIM_def split: if_splits sum.splits)

text \<open>No method assigns to the shape or to the scale, so a valid session stays
  valid.\<close>

lemma valid_session_fields:
  "valid_session e \<Longrightarrow> scale e' = scale e \<Longrightarrow> w_orig e' = w_orig e \<Longrightarrow> h_orig e' = h_orig e
     \<Longrightarrow> valid_session e'"
  by (auto simp: valid_session_def split: sum.splits)

lemma add_box_keeps:
  "scale (fst (add_box_from_disp e s t)) = scale e"
  "w_orig (fst (add_box_from_disp e s t)) = w_orig e"
  "h_orig (fst (add_box_from_disp e s t)) = h_orig e"
  by (simp_all add: add_box_from_disp_def Let_def split: pyval.splits)

lemma mouse_callback_keeps:
  "scale (fst (mouse_callback e ev x y)) = scale e"
  "w_orig (fst (mouse_callback e ev x y)) = w_orig e"
  "h_orig (fst (mouse_callback e ev x y)) = h_orig e"
proof -
  let ?e1 = "e\<lparr>mouse_pos := (x, y), cur_pt_disp := Some (x, y)\<rparr>"
  have k: "scale (fst (add_box_from_disp ?e1 s (x, y))) = scale e"
    "w_orig (fst (add_box_from_disp ?e1 s (x, y))) = w_orig e"
    "h_orig (fst (add_box_from_disp ?e1 s (x, y))) = h_orig e" for s
    by (simp_all add: add_box_keeps)
  have r: "fst (case q of (e2, None) \<Rightarrow> (g e2, None) | (e2, Some ex) \<Rightarrow> (e2, Some ex))
             = (if snd q = None then g (fst q) else fst q)"
    for q :: "editor \<times> exn option" and g
    by (cases q) (auto split: option.splits)
  show "scale (fst (mouse_callback e ev x y)) = scale e"
    by (cases ev) (auto simp: mouse_callback_def Let_def r k split: option.splits)
  show "w_orig (fst (mouse_callback e ev x y)) = w_orig e"
    by (cases ev) (auto simp: mouse_callback_def Let_def r k split: option.splits)
  show "h_orig (fst (mouse_callback e ev x y)) = h_orig e"
    by (cases ev) (auto simp: mouse_callback_def Let_def r k split: option.splits)
qed

lemma valid_session_preserved:
  assumes "valid_session e"
  shows "valid_session (fst (mouse_callback e ev x y))"
    and "valid_session (fst (add_box_from_disp e s t))"
    and "valid_session (fst (load_boxes e p fsys))"
    and "valid_session (fst (fst (save_boxes e path fsys)))"
proof -
  show "valid_session (fst (mouse_callback e ev x y))"
    using assms by (rule valid_session_fields) (rule mouse_callback_keeps)+
  show "valid_session (fst (add_box_from_disp e s t))"
    using assms by (rule valid_session_fields) (rule add_box_keeps)+
  show "valid_session (fst (load_boxes e p fsys))"
    using assms by (rule valid_session_fields) (rule load_boxes_keeps)+
  show "valid_session (fst (fst (save_boxes e path fsys)))"
    using assms
    by (rule valid_session_fields) (simp_all add: save_boxes_def Let_def split: sum.splits)
qed

text \<open>The sessions of the examples are the ones the constructor builds.\<close>

lemma init_session_half:
  "BoxEditor_init ''img.png'' ''img'' (Some (1000, 2000)) None None no_files
     = Inr (session 1000 2000 (1 / 2) (PList []))"
  by (simp add: BoxEditor_init_def scale_for_display_def MAX_DISPLAY_DIM_def Let_def
      session_def default_output_name_def py_int_def)



section \<open>Conversions between display and image\<close>

lemma orig_to_disp_int_box:
  "orig_to_disp e (int_box x y w h) =
     Inr (py_round (of_int x * scale e), py_round (of_int y * scale e),
          py_round (of_int w * scale e), py_round (of_int h * scale e))"
  by (simp add: orig_to_disp_def int_box_def unpack4_def)

lemma py_round_nonneg: "0 \<le> q \<Longrightarrow> 0 \<le> py_round q"
  by (simp add: py_round_def Let_def)

text \<open>A box of non-negative width and height has a display rectangle of
  non-negative width and height.\<close>

lemma disp_rect_nonneg:
  "0 \<le> scale e \<Longrightarrow> 0 \<le> w \<Longrightarrow> 0 \<le> h \<Longrightarrow>
     orig_to_disp e (int_box x y w h) = Inr (rx, ry, rw, rh) \<Longrightarrow> 0 \<le> rw \<and> 0 \<le> rh"
  by (auto simp: orig_to_disp_int_box intro!: py_round_nonneg)




lemma disp_to_orig_fields:
  "scale e' = scale e \<Longrightarrow> w_orig e' = w_orig e \<Longrightarrow> h_orig e' = h_orig e \<Longrightarrow>
     disp_to_orig e' = disp_to_orig e"
  by (simp add: fun_eq_iff disp_to_orig_def Let_def)

lemma disp_to_orig_in_bounds:
  assumes "valid_session e"
  shows "0 \<le> fst (disp_to_orig e p) \<and> fst (disp_to_orig e p) \<le> w_orig e - 1 \<and>
         0 \<le> snd (disp_to_orig e p) \<and> snd (disp_to_orig e p) \<le> h_orig e - 1"
proof -
  have "scale e \<noteq> 0" using valid_session_scale [OF assms] by simp
  moreover have "0 < w_orig e" "0 < h_orig e" using assms by (simp_all add: valid_session_def)
  ultimately show ?thesis by (simp add: disp_to_orig_def Let_def min_less_iff_disj)
qed









section \<open>Ending a drag\<close>

lemma add_box_degenerate:
  "fst (disp_to_orig e s) = fst (disp_to_orig e t) \<or> snd (disp_to_orig e s) = snd (disp_to_orig e t)
     \<Longrightarrow> add_box_from_disp e s t = (e, None)"
  by (auto simp: add_box_from_disp_def Let_def)

lemma add_box_appends:
  "boxes e = PList bs \<Longrightarrow>
   fst (disp_to_orig e s) \<noteq> fst (disp_to_orig e t) \<Longrightarrow>
   snd (disp_to_orig e s) \<noteq> snd (disp_to_orig e t) \<Longrightarrow>
   add_box_from_disp e s t =
     (e\<lparr>boxes := PList (bs @ [int_box (min (fst (disp_to_orig e s)) (fst (disp_to_orig e t)))
                                    (min (snd (disp_to_orig e s)) (snd (disp_to_orig e t)))
                                    \<bar>fst (disp_to_orig e t) - fst (disp_to_orig e s)\<bar>
                                    \<bar>snd (disp_to_orig e t) - snd (disp_to_orig e s)\<bar>])\<rparr>, None)"
  by (simp add: add_box_from_disp_def Let_def int_box_def)

lemma add_box_not_list:
  "add_box_from_disp e s t = (e', r) \<Longrightarrow> boxes e' \<noteq> boxes e \<Longrightarrow> \<exists>bs. boxes e = PList bs"
  by (auto simp: add_box_from_disp_def Let_def split: if_splits pyval.splits)

text \<open>The box list after \<open>add_box_from_disp\<close> depends on the scale, the shape and
  the box list only.\<close>

lemma add_box_cong:
  assumes "scale e' = scale e" and "w_orig e' = w_orig e" and "h_orig e' = h_orig e"
    and "boxes e' = boxes e"
  shows "boxes (fst (add_box_from_disp e' s t)) = boxes (fst (add_box_from_disp e s t))"
    and "snd (add_box_from_disp e' s t) = snd (add_box_from_disp e s t)"
proof -
  have d: "disp_to_orig e' = disp_to_orig e"
    using assms(1-3) by (rule disp_to_orig_fields)
  show "boxes (fst (add_box_from_disp e' s t)) = boxes (fst (add_box_from_disp e s t))"
    using assms(4) by (simp add: add_box_from_disp_def Let_def d split: pyval.splits)
  show "snd (add_box_from_disp e' s t) = snd (add_box_from_disp e s t)"
    using assms(4) by (simp add: add_box_from_disp_def Let_def d split: pyval.splits)
qed

text \<open>Releasing the button during a drag adds the box of the drag; the flag
  \<open>drawing\<close> is cleared unless \<^verbatim>\<open>append\<close> raised.\<close>

lemma mouse_up_dragging:
  assumes "drawing e" and "start_pt_disp e = Some s"
  shows "boxes (fst (mouse_callback e EVENT_LBUTTONUP px py))
           = boxes (fst (add_box_from_disp e s (px, py)))"
    and "snd (mouse_callback e EVENT_LBUTTONUP px py) = snd (add_box_from_disp e s (px, py))"
    and "snd (add_box_from_disp e s (px, py)) = None
           \<Longrightarrow> \<not> drawing (fst (mouse_callback e EVENT_LBUTTONUP px py))"
proof -
  let ?e1 = "e\<lparr>mouse_pos := (px, py), cur_pt_disp := Some (px, py)\<rparr>"
  obtain e2 r where q: "add_box_from_disp ?e1 s (px, py) = (e2, r)"
    by (cases "add_box_from_disp ?e1 s (px, py)")
  have b: "boxes e2 = boxes (fst (add_box_from_disp e s (px, py)))"
    using add_box_cong(1) [of ?e1 e s "(px, py)"] q by simp
  have r: "r = snd (add_box_from_disp e s (px, py))"
    using add_box_cong(2) [of ?e1 e s "(px, py)"] q by simp
  have m: "mouse_callback e EVENT_LBUTTONUP px py =
             (case r of
                Some ex \<Rightarrow> (e2, Some ex)
              | None \<Rightarrow> (e2\<lparr>drawing := False, start_pt_disp := None, cur_pt_disp := None\<rparr>, None))"
    using assms q by (simp add: mouse_callback_def Let_def)
  show "boxes (fst (mouse_callback e EVENT_LBUTTONUP px py))
           = boxes (fst (add_box_from_disp e s (px, py)))"
    using b by (simp add: m split: option.splits)
  show "snd (mouse_callback e EVENT_LBUTTONUP px py) = snd (add_box_from_disp e s (px, py))"
    using r by (simp add: m split: option.splits)
  show "\<not> drawing (fst (mouse_callback e EVENT_LBUTTONUP px py))"
    if "snd (add_box_from_disp e s (px, py)) = None"
    using that r by (simp add: m)
qed

lemma mouse_no_drag:
  "ev \<noteq> EVENT_LBUTTONUP \<or> \<not> drawing e \<or> start_pt_disp e = None
     \<Longrightarrow> boxes (fst (mouse_callback e ev px py)) = boxes e \<and>
         snd (mouse_callback e ev px py) = None"
  by (cases ev) (auto simp: mouse_callback_def Let_def)

text \<open>
  C2. For every pair of display points \<open>s\<close> and \<open>t\<close>, equal or not,
  \<open>add_box_from_disp\<close> maps both to image space, takes \<open>x\<close> and \<open>y\<close> as the minima
  and \<open>w\<close> and \<open>h\<close> as the absolute differences, and appends \<open>[x, y, w, h]\<close> to the
  box list exactly when \<open>w > 0\<close> and \<open>h > 0\<close>; otherwise, and in particular when
  \<open>s = t\<close>, it leaves the editor as it is and raises nothing. Releasing the mouse
  button during a drag does to the box list what \<open>add_box_from_disp\<close> does.
\<close>

theorem add_box_only_positive:
  "(let x0 = fst (disp_to_orig e s); y0 = snd (disp_to_orig e s);
        x1 = fst (disp_to_orig e t); y1 = snd (disp_to_orig e t);
        x = min x0 x1; y = min y0 y1; w = \<bar>x1 - x0\<bar>; h = \<bar>y1 - y0\<bar>
    in (0 < w \<and> 0 < h \<and> boxes e = PList bs \<longrightarrow>
          add_box_from_disp e s t = (e\<lparr>boxes := PList (bs @ [int_box x y w h])\<rparr>, None)) \<and>
       (w \<le> 0 \<or> h \<le> 0 \<longrightarrow> add_box_from_disp e s t = (e, None)))
   \<and> add_box_from_disp e s s = (e, None)
   \<and> (drawing e \<and> start_pt_disp e = Some s \<longrightarrow>
        boxes (fst (mouse_callback e EVENT_LBUTTONUP px py)) =
          boxes (fst (add_box_from_disp e s (px, py))) \<and>
        snd (mouse_callback e EVENT_LBUTTONUP px py) = snd (add_box_from_disp e s (px, py)))"
proof -
  have a: "add_box_from_disp e s s = (e, None)"
    by (rule add_box_degenerate) simp
  have b: "boxes (fst (mouse_callback e EVENT_LBUTTONUP px py)) =
             boxes (fst (add_box_from_disp e s (px, py))) \<and>
           snd (mouse_callback e EVENT_LBUTTONUP px py) = snd (add_box_from_disp e s (px, py))"
    if "drawing e \<and> start_pt_disp e = Some s"
    using that mouse_up_dragging(1,2) [of e s px py] by simp
  have c: "add_box_from_disp e s t = (e, None)"
    if "\<bar>fst (disp_to_orig e t) - fst (disp_to_orig e s)\<bar> \<le> 0 \<or>
        \<bar>snd (disp_to_orig e t) - snd (disp_to_orig e s)\<bar> \<le> 0"
    using that by (intro add_box_degenerate) auto
  have d: "add_box_from_disp e s t =
     (e\<lparr>boxes := PList (bs @ [int_box (min (fst (disp_to_orig e s)) (fst (disp_to_orig e t)))
                                    (min (snd (disp_to_orig e s)) (snd (disp_to_orig e t)))
                                    \<bar>fst (disp_to_orig e t) - fst (disp_to_orig e s)\<bar>
                                    \<bar>snd (disp_to_orig e t) - snd (disp_to_orig e s)\<bar>])\<rparr>, None)"
    if "0 < \<bar>fst (disp_to_orig e t) - fst (disp_to_orig e s)\<bar> \<and>
        0 < \<bar>snd (disp_to_orig e t) - snd (disp_to_orig e s)\<bar> \<and> boxes e = PList bs"
    using that by (intro add_box_appends) auto
  show ?thesis
    unfolding Let_def using a b c d by blast
qed

text \<open>On a 2000 by 1000 image (scale 1/2), the drag from (100, 100) to (300, 200)
  adds the box \<open>[200, 200, 400, 200]\<close>; the drag from (100, 100) to (300, 100) has
  height 0 and adds nothing.\<close>

theorem add_box_only_positive_witness:
  "add_box_from_disp (session 1000 2000 (1 / 2) (PList [])) (100, 100) (300, 200)
     = (session 1000 2000 (1 / 2) (PList [int_box 200 200 400 200]), None) \<and>
   add_box_from_disp (session 1000 2000 (1 / 2) (PList [])) (100, 100) (300, 100)
     = (session 1000 2000 (1 / 2) (PList []), None)"
  using add_box_only_positive [of "session 1000 2000 (1 / 2) (PList [])" "(100, 100)" "(300, 200)" "[]" 0 0]
    add_box_only_positive [of "session 1000 2000 (1 / 2) (PList [])" "(100, 100)" "(300, 100)" "[]" 0 0]
  by (simp add: session_def disp_to_orig_def py_round_def Let_def)

text \<open>
  C8. In a session (an image that is not empty, the scale computed by
  \<open>scale_for_display\<close>), whatever \<open>add_box_from_disp\<close> appends to the box list is a
  box \<open>[x, y, w, h]\<close> with \<open>0 \<le> x\<close>, \<open>0 \<le> y\<close>, \<open>x + w \<le> width - 1\<close> and
  \<open>y + h \<le> height - 1\<close>, since both end points of the drag were clamped; the same
  holds for what a mouse event appends.
\<close>

theorem add_box_within_image:
  assumes "valid_session e"
  shows "(boxes (fst (add_box_from_disp e s t)) = boxes e \<or>
          (\<exists>bs x y w h. boxes e = PList bs \<and>
             boxes (fst (add_box_from_disp e s t)) = PList (bs @ [int_box x y w h]) \<and>
             0 \<le> x \<and> 0 \<le> y \<and> 0 < w \<and> 0 < h \<and>
             x + w \<le> w_orig e - 1 \<and> y + h \<le> h_orig e - 1)) \<and>
         (boxes (fst (mouse_callback e ev px py)) = boxes e \<or>
          (\<exists>bs x y w h. boxes e = PList bs \<and>
             boxes (fst (mouse_callback e ev px py)) = PList (bs @ [int_box x y w h]) \<and>
             0 \<le> x \<and> 0 \<le> y \<and> 0 < w \<and> 0 < h \<and>
             x + w \<le> w_orig e - 1 \<and> y + h \<le> h_orig e - 1))"
proof -
  have add: "boxes (fst (add_box_from_disp e s t)) = boxes e \<or>
          (\<exists>bs x y w h. boxes e = PList bs \<and>
             boxes (fst (add_box_from_disp e s t)) = PList (bs @ [int_box x y w h]) \<and>
             0 \<le> x \<and> 0 \<le> y \<and> 0 < w \<and> 0 < h \<and>
             x + w \<le> w_orig e - 1 \<and> y + h \<le> h_orig e - 1)" for s t
  proof (cases "boxes (fst (add_box_from_disp e s t)) = boxes e")
    case True
    then show ?thesis by simp
  next
    case False
    obtain e' r where er: "add_box_from_disp e s t = (e', r)"
      by (cases "add_box_from_disp e s t")
    with False obtain bs where bs: "boxes e = PList bs"
      using add_box_not_list [OF er] by auto
    have nd: "fst (disp_to_orig e s) \<noteq> fst (disp_to_orig e t)"
             "snd (disp_to_orig e s) \<noteq> snd (disp_to_orig e t)"
      using False add_box_degenerate [of e s t] by auto
    note ap = add_box_appends [OF bs nd]
    note b0 = disp_to_orig_in_bounds [OF assms, of s]
    note b1 = disp_to_orig_in_bounds [OF assms, of t]
    let ?x0 = "fst (disp_to_orig e s)" and ?x1 = "fst (disp_to_orig e t)"
    let ?y0 = "snd (disp_to_orig e s)" and ?y1 = "snd (disp_to_orig e t)"
    have "0 \<le> min ?x0 ?x1 \<and> 0 \<le> min ?y0 ?y1 \<and> 0 < \<bar>?x1 - ?x0\<bar> \<and> 0 < \<bar>?y1 - ?y0\<bar> \<and>
          min ?x0 ?x1 + \<bar>?x1 - ?x0\<bar> \<le> w_orig e - 1 \<and>
          min ?y0 ?y1 + \<bar>?y1 - ?y0\<bar> \<le> h_orig e - 1"
      using b0 b1 nd by linarith
    then have "boxes e = PList bs \<and>
              boxes (fst (add_box_from_disp e s t)) =
                PList (bs @ [int_box (min ?x0 ?x1) (min ?y0 ?y1) \<bar>?x1 - ?x0\<bar> \<bar>?y1 - ?y0\<bar>]) \<and>
              0 \<le> min ?x0 ?x1 \<and> 0 \<le> min ?y0 ?y1 \<and> 0 < \<bar>?x1 - ?x0\<bar> \<and> 0 < \<bar>?y1 - ?y0\<bar> \<and>
              min ?x0 ?x1 + \<bar>?x1 - ?x0\<bar> \<le> w_orig e - 1 \<and>
              min ?y0 ?y1 + \<bar>?y1 - ?y0\<bar> \<le> h_orig e - 1"
      using bs ap by simp
    then show ?thesis by blast
  qed
  have mouse: "boxes (fst (mouse_callback e ev px py)) = boxes e \<or>
          (\<exists>bs x y w h. boxes e = PList bs \<and>
             boxes (fst (mouse_callback e ev px py)) = PList (bs @ [int_box x y w h]) \<and>
             0 \<le> x \<and> 0 \<le> y \<and> 0 < w \<and> 0 < h \<and>
             x + w \<le> w_orig e - 1 \<and> y + h \<le> h_orig e - 1)"
  proof (cases "ev \<noteq> EVENT_LBUTTONUP \<or> \<not> drawing e \<or> start_pt_disp e = None")
    case True
    then show ?thesis using mouse_no_drag [of ev e px py] by simp
  next
    case False
    then obtain s where s: "ev = EVENT_LBUTTONUP" "drawing e" "start_pt_disp e = Some s"
      by auto
    show ?thesis
      unfolding s(1) mouse_up_dragging(1) [OF s(2,3)] by (rule add)
  qed
  from add mouse show ?thesis by (rule conjI)
qed

text \<open>A drag that starts left of the window and ends right of it is cut to the
  image: on the 2000 by 1000 image it gives \<open>[0, 200, 1999, 200]\<close>.\<close>

theorem add_box_within_image_witness:
  "valid_session (session 1000 2000 (1 / 2) (PList [])) \<and>
   boxes (fst (add_box_from_disp (session 1000 2000 (1 / 2) (PList [])) (- 50, 100) (5000, 200)))
     = PList [int_box 0 200 1999 200]"
  using add_box_within_image [of "session 1000 2000 (1 / 2) (PList [])" "(- 50, 100)" "(5000, 200)"]
  by (simp add: valid_session_def scale_for_display_def MAX_DISPLAY_DIM_def py_int_def
      session_def disp_to_orig_def add_box_from_disp_def int_box_def py_round_def Let_def)


section \<open>Hit test\<close>












section \<open>Loading and saving\<close>

text \<open>
  C1, as amended. \<open>load_boxes\<close> checks no entry: when the file holds a JSON object
  with a key \<^verbatim>\<open>boxes\<close>, the box list becomes the value of that key exactly as it
  was parsed, malformed entries included; in every other case the box list stays as
  it was. No error reaches the caller (the result of \<open>load_boxes\<close> is an editor and
  a printed message, never an exception).
\<close>

theorem load_boxes_verbatim:
  "boxes (fst (load_boxes e path fsys)) =
     (case files fsys path of
        Some (JsonDoc (PDict kvs)) \<Rightarrow>
          (case map_of kvs ''boxes'' of Some v \<Rightarrow> v | None \<Rightarrow> boxes e)
      | _ \<Rightarrow> boxes e)"
proof (cases "files fsys path")
  case None
  then show ?thesis by (simp add: load_boxes_def load_boxes_try_def)
next
  case (Some c)
  show ?thesis
  proof (cases c)
    case NotJson
    with Some show ?thesis by (simp add: load_boxes_def load_boxes_try_def)
  next
    case (JsonDoc data)
    show ?thesis
    proof (cases data)
      case (PDict kvs)
      have "(''boxes'' \<in> fst ` set kvs) = (map_of kvs ''boxes'' \<noteq> None)"
        by (simp add: map_of_eq_None_iff)
      then show ?thesis
        using Some JsonDoc PDict
        by (auto simp: load_boxes_def load_boxes_try_def Let_def split: option.splits sum.splits)
    qed (use Some JsonDoc in \<open>auto simp: load_boxes_def load_boxes_try_def split: bool.splits\<close>)
  qed
qed

theorem load_boxes_verbatim_witness:
  "boxes (fst (load_boxes (session 1000 2000 (1 / 2) (PList [])) ''boxes.json'' mixed_file))
     = mixed_entries"
  using load_boxes_verbatim [of "session 1000 2000 (1 / 2) (PList [])" "''boxes.json''" mixed_file]
  by (simp add: mixed_file_def)

text \<open>
  C1 as stated fails: the file whose \<^verbatim>\<open>boxes\<close> array is
  \<^verbatim>\<open>[[10, 20, 30, 40], ["a", 1, 2, 3]]\<close> loads as a list of two entries, the
  malformed one among them, not as the one-element list of the well-formed entry.
\<close>

theorem load_keeps_malformed:
  "load_boxes (session 1000 2000 (1 / 2) (PList [])) ''boxes.json'' mixed_file
     = (session 1000 2000 (1 / 2)
          (PList [int_box 10 20 30 40, PList [PStr ''a'', PInt 1, PInt 2, PInt 3]]), Loaded 2) \<and>
   is_int_box (int_box 10 20 30 40) \<and>
   \<not> is_int_box (PList [PStr ''a'', PInt 1, PInt 2, PInt 3]) \<and>
   boxes (fst (load_boxes (session 1000 2000 (1 / 2) (PList [])) ''boxes.json'' mixed_file))
     \<noteq> PList [int_box 10 20 30 40]"
  by (simp add: load_boxes_def load_boxes_try_def mixed_file_def mixed_entries_def session_def
      int_box_def)

text \<open>
  C5. For every session whose box list consists of four-element integer arrays,
  saving to a path that can be written and loading that file back, into any editor,
  gives a box list identical to the list at the time of the save: the same entries
  in the same order, nothing filtered and nothing merged.
\<close>

theorem save_load_roundtrip:
  assumes "boxes e = PList bs" and "\<forall>b\<in>set bs. is_int_box b"
    and "save_path e path \<notin> unwritable fsys" and "save_path e path \<notin> write_fails fsys"
  shows "snd (save_boxes e path fsys) = None \<and>
         load_boxes e2 (save_path e path) (snd (fst (save_boxes e path fsys)))
           = (e2\<lparr>boxes := PList bs\<rparr>, Loaded (length bs)) \<and>
         boxes (fst (fst (save_boxes e path fsys))) = PList bs"
  using assms(1,3,4)
  by (simp add: save_boxes_def Let_def save_payload_def load_boxes_def load_boxes_try_def)

theorem save_load_roundtrip_witness:
  "snd (save_boxes (session 1000 2000 (1 / 2) (PList [int_box 10 20 30 40, int_box 5 5 5 5]))
          (Some ''out.json'') no_files) = None \<and>
   load_boxes (session 1000 2000 (1 / 2) (PList [])) ''out.json''
      (snd (fst (save_boxes (session 1000 2000 (1 / 2) (PList [int_box 10 20 30 40, int_box 5 5 5 5]))
          (Some ''out.json'') no_files)))
     = (session 1000 2000 (1 / 2) (PList [int_box 10 20 30 40, int_box 5 5 5 5]), Loaded 2)"
  using save_load_roundtrip [of "session 1000 2000 (1 / 2) (PList [int_box 10 20 30 40, int_box 5 5 5 5])"
     "[int_box 10 20 30 40, int_box 5 5 5 5]" "Some ''out.json''" no_files
     "session 1000 2000 (1 / 2) (PList [])"]
  by (simp add: save_path_def no_files_def) (simp add: session_def int_box_def)

text \<open>
  C9. \<open>save_boxes\<close> never changes the box list. When it fails, whether the file
  cannot be opened or the write fails, the exception goes to the caller and the
  editor is exactly as it was before.
\<close>

theorem failed_save_keeps_boxes:
  "boxes (fst (fst (save_boxes e path fsys))) = boxes e \<and>
   (snd (save_boxes e path fsys) \<noteq> None \<longrightarrow> fst (fst (save_boxes e path fsys)) = e) \<and>
   (save_path e path \<in> unwritable fsys \<union> write_fails fsys
      \<longrightarrow> snd (save_boxes e path fsys) \<noteq> None)"
proof (cases "py_len (boxes e)")
  case (Inl ex)
  then show ?thesis by (simp add: save_boxes_def Let_def)
next
  case (Inr n)
  then show ?thesis by (simp add: save_boxes_def Let_def)
qed

theorem failed_save_keeps_boxes_witness:
  "save_boxes (session 1000 2000 (1 / 2) (PList [int_box 10 20 30 40])) (Some ''out.json'') read_only
     = ((session 1000 2000 (1 / 2) (PList [int_box 10 20 30 40]), read_only), Some PermissionError)"
  using failed_save_keeps_boxes [of "session 1000 2000 (1 / 2) (PList [int_box 10 20 30 40])"
     "Some ''out.json''" read_only]
  by (simp add: save_path_def read_only_def save_boxes_def)

end
